theory Spec2Isabelle
  imports Complex_Main "HOL-Library.Char_ord" "HOL-Library.List_Lexorder"
begin

section \<open>HybPiper gene recovery heatmap: the table pipeline of \<open>main\<close>\<close>

text \<open>
  The module \<^verbatim>\<open>hybpiper/gene_recovery_heatmap.py\<close> reads the table written by
  \<^verbatim>\<open>hybpiper get_seq_lengths\<close>, divides every gene length by the mean length of the
  gene (the first data row), caps the ratios at 1, reshapes the table with
  \<^verbatim>\<open>melt\<close> and \<^verbatim>\<open>pivot\<close>, and draws the result with seaborn.

  The Python works on pandas data frames. The model below keeps the column-wise layout
  of a data frame and writes out what each pandas call of \<open>main\<close> does to it.
\<close>

subsection \<open>Numbers\<close>

text \<open>
  The cells of the numeric columns are float64 values after the division. The model keeps
  the finite values exact (rationals: rounding is not modelled) and adds the three values
  that a division by zero produces in pandas and numpy: \<open>x / 0\<close> is \<open>inf\<close> for
  \<open>x > 0\<close>, \<open>-inf\<close> for \<open>x < 0\<close> and \<open>NaN\<close> for \<open>x = 0\<close>; no exception is raised.
\<close>

datatype fval = Fin rat | PInf | NInf | NaN

definition truediv :: "rat \<Rightarrow> rat \<Rightarrow> fval" where
  "truediv s r =
     (if r \<noteq> 0 then Fin (s / r)
      else if 0 < s then PInf
      else if s < 0 then NInf
      else NaN)"

text \<open>The comparison \<^verbatim>\<open>value < 1\<close>: false for \<open>NaN\<close> and for \<open>inf\<close>.\<close>

fun lt_one :: "fval \<Rightarrow> bool" where
  "lt_one (Fin x) = (x < 1)"
| "lt_one PInf = False"
| "lt_one NInf = True"
| "lt_one NaN = False"

subsection \<open>Errors\<close>

text \<open>
  The exceptions that the modelled calls raise. \<open>SystemExit\<close> is \<^verbatim>\<open>sys.exit(1)\<close> of
  \<open>main\<close>; the others are raised inside pandas, numpy or seaborn and are not caught.
\<close>

datatype error =
    IndexError
  | KeyError string
  | ValueError string
  | ParserError
  | FileNotFoundError
  | SystemExit int

subsection \<open>Data frames\<close>

text \<open>
  The frame that \<^verbatim>\<open>pd.read_csv(path, delimiter='\t')\<close> returns for a length table:
  the first column (text: the sample names, with the name of the mean-length row on top)
  and the remaining columns (numbers), each with its header name, in file order. The rows
  carry the labels \<open>0, 1, \<dots>\<close>; row \<open>0\<close> is the first data row.
\<close>

record 'v dataframe =
  id_name :: string
  id_values :: "string list"
  gene_columns :: "(string \<times> 'v list) list"

text \<open>
  A frame is rectangular and \<^verbatim>\<open>read_csv\<close> makes the column names distinct (it renames
  repeated header names).
\<close>

definition wf_frame :: "'v dataframe \<Rightarrow> bool" where
  "wf_frame df \<longleftrightarrow>
     distinct (id_name df # map fst (gene_columns df)) \<and>
     list_all (\<lambda>(g, c). length c = length (id_values df)) (gene_columns df)"

subsection \<open>Lines 173 to 179: normalise, cap, drop the mean-length row\<close>

text \<open>
  \<^verbatim>\<open>df.loc[:, df.columns[1]:] = df.loc[:, df.columns[1]:].div(df.iloc[0][df.columns[1]:])\<close>

  \<^verbatim>\<open>df.columns[1]\<close> raises IndexError when the frame has a single column, and
  \<^verbatim>\<open>df.iloc[0]\<close> raises IndexError when it has no row. Otherwise every cell of every
  column from the second on is divided by the cell of row \<open>0\<close> in the same column
  (row \<open>0\<close> itself included).
\<close>

definition div_by_mean_length :: "rat dataframe \<Rightarrow> error + fval dataframe" where
  "div_by_mean_length df =
     (if gene_columns df = [] then Inl IndexError
      else if id_values df = [] then Inl IndexError
      else Inr \<lparr>id_name = id_name df, id_values = id_values df,
                gene_columns =
                  map (\<lambda>(g, c). (g, map (\<lambda>s. truediv s (hd c)) c)) (gene_columns df)\<rparr>)"

text \<open>
  \<^verbatim>\<open>df.where(df.loc[:, df.columns[1]:] < 1, 1, inplace=True)\<close>

  A cell is kept where the condition holds and replaced by \<open>1\<close> where it does not. The
  condition frame has no first column; with \<^verbatim>\<open>inplace=True\<close> pandas fills the missing
  part of the condition with True, so the first column is kept as it is.
\<close>

definition cap_value :: "fval \<Rightarrow> fval" where
  "cap_value v = (if lt_one v then v else Fin 1)"

definition cap_at_one :: "fval dataframe \<Rightarrow> fval dataframe" where
  "cap_at_one df =
     df\<lparr>gene_columns := map (\<lambda>(g, c). (g, map cap_value c)) (gene_columns df)\<rparr>"

text \<open>
  \<^verbatim>\<open>df.drop(labels=0, axis=0, inplace=True)\<close> removes the row labelled \<open>0\<close>, the first
  one, and raises KeyError when there is no such row.
\<close>

definition drop_row_0 :: "'v dataframe \<Rightarrow> error + 'v dataframe" where
  "drop_row_0 df =
     (if id_values df = [] then Inl (KeyError ''[0] not found in axis'')
      else Inr (df\<lparr>id_values := tl (id_values df),
                    gene_columns := map (\<lambda>(g, c). (g, tl c)) (gene_columns df)\<rparr>))"

subsection \<open>Lines 182 to 188: melt, to_numeric, pivot\<close>

text \<open>
  \<^verbatim>\<open>df.melt(id_vars=['Species'], var_name='gene_id', value_name='percentage_recovery')\<close>

  The identifier column is looked up by the name \<open>Species\<close>; a frame without a column
  of that name raises KeyError. Every other column is a value column: the long frame
  lists, value column after value column in frame order, one entry per row with the
  identifier of the row, the name of the column and the cell.

  \<^verbatim>\<open>df["percentage_recovery"].apply(pd.to_numeric)\<close> then leaves numbers as they are and
  raises ValueError on text that is not a number. Text reaches it only when \<open>Species\<close>
  names one of the numeric columns and not the first column (the first column then is a
  value column); its cells are the sample names, taken here not to read as numbers.
  Both lines are one definition, so that the long frame has text identifiers and numeric
  values.
\<close>

definition melt_rows ::
  "string list \<Rightarrow> (string \<times> 'v list) list \<Rightarrow> ((string \<times> string) \<times> 'v) list" where
  "melt_rows ids cols =
     concat (map (\<lambda>(g, c). map (\<lambda>(s, v). ((s, g), v)) (zip ids c)) cols)"

definition melt :: "fval dataframe \<Rightarrow> error + ((string \<times> string) \<times> fval) list" where
  "melt df =
     (if id_name df = ''Species'' then Inr (melt_rows (id_values df) (gene_columns df))
      else if ''Species'' \<notin> set (map fst (gene_columns df)) then
        Inl (KeyError ''The following id_vars are not present in the DataFrame: Species'')
      else if id_values df = [] then Inr []
      else Inl (ValueError ''Unable to parse string''))"

text \<open>
  \<^verbatim>\<open>df.pivot(index='Species', columns='gene_id', values='percentage_recovery')\<close>

  pandas builds the result from the index of the pairs (identifier, gene) by unstacking
  the gene level. A pair that occurs twice raises ValueError. Both axes of the result
  hold the distinct labels in ascending order (the levels of the pair index are sorted),
  and a pair that does not occur gives a \<open>NaN\<close> cell.
\<close>

record matrix =
  mat_index :: "string list"
  mat_columns :: "string list"
  mat_values :: "fval list list"

definition pivot :: "((string \<times> string) \<times> fval) list \<Rightarrow> error + matrix" where
  "pivot long =
     (if \<not> distinct (map fst long) then
        Inl (ValueError ''Index contains duplicate entries, cannot reshape'')
      else
        let idx = sort (remdups (map (fst \<circ> fst) long));
            cols = sort (remdups (map (snd \<circ> fst) long))
        in Inr \<lparr>mat_index = idx, mat_columns = cols,
                 mat_values =
                   map (\<lambda>s. map (\<lambda>g. case map_of long (s, g) of
                                         Some v \<Rightarrow> v | None \<Rightarrow> NaN) cols) idx\<rparr>)"

text \<open>The pipeline of lines 173 to 188.\<close>

definition recovery_matrix :: "rat dataframe \<Rightarrow> error + matrix" where
  "recovery_matrix df =
     (case div_by_mean_length df of
        Inl e \<Rightarrow> Inl e
      | Inr df1 \<Rightarrow>
          (case drop_row_0 (cap_at_one df1) of
             Inl e \<Rightarrow> Inl e
           | Inr df2 \<Rightarrow>
               (case melt df2 of
                  Inl e \<Rightarrow> Inl e
                | Inr long \<Rightarrow> pivot long)))"

text \<open>Label-based access to a cell of the matrix, \<^verbatim>\<open>df.loc[s, g]\<close>.\<close>

definition mat_loc :: "matrix \<Rightarrow> string \<Rightarrow> string \<Rightarrow> fval option" where
  "mat_loc m s g =
     (case map_of (zip (mat_index m) (mat_values m)) s of
        None \<Rightarrow> None
      | Some row \<Rightarrow> map_of (zip (mat_columns m) row) g)"

text \<open>
  The tables the pipeline is written for: a rectangular frame whose first column is named
  \<open>Species\<close> (the header that HybPiper writes), with at least one gene column, the
  mean-length row, at least one sample row, and no sample name twice.
\<close>

definition well_formed :: "rat dataframe \<Rightarrow> bool" where
  "well_formed df \<longleftrightarrow>
     wf_frame df \<and> id_name df = ''Species'' \<and> gene_columns df \<noteq> [] \<and>
     2 \<le> length (id_values df) \<and> distinct (tl (id_values df))"

subsection \<open>\<open>get_figure_dimensions\<close>\<close>

text \<open>
  \<^verbatim>\<open>x if x else d\<close>: the override counts as given when it is true in Python, that is
  neither None nor \<open>0\<close>.
\<close>

definition or_default :: "int option \<Rightarrow> rat \<Rightarrow> rat" where
  "or_default x d = (case x of None \<Rightarrow> d | Some v \<Rightarrow> if v = 0 then d else of_int v)"

text \<open>
  The function has no raise statement and calls nothing that fails on a data frame, so
  its result is the plain tuple \<^verbatim>\<open>(fig_length, figure_height, sample_text_size,
  gene_id_text_size)\<close>. The two \<^verbatim>\<open>logger.info\<close> calls are left out.
\<close>

definition get_figure_dimensions ::
  "matrix \<Rightarrow> int option \<Rightarrow> int option \<Rightarrow> int option \<Rightarrow> int option \<Rightarrow> rat \<times> rat \<times> rat \<times> rat" where
  "get_figure_dimensions df figure_length figure_height sample_text_size gene_text_size =
     (let num_samples = length (mat_index df);
          num_genes = length (mat_columns df);
          sample_text_size = or_default sample_text_size 10;
          gene_id_text_size = or_default gene_text_size 10;
          figure_height = or_default figure_height (of_nat num_samples / 3);
          fig_length = or_default figure_length (of_nat num_genes / 3)
      in (fig_length, figure_height, sample_text_size, gene_id_text_size))"

subsection \<open>Lines 198 to 208: the seaborn and matplotlib calls\<close>

text \<open>
  \<^verbatim>\<open>sns.heatmap(df, vmin=0, cmap='bone_r')\<close>: the arguments of the call. No
  \<^verbatim>\<open>vmax\<close> is passed.
\<close>

record heatmap_call =
  hm_data :: matrix
  hm_vmin :: "rat option"
  hm_vmax :: "rat option"
  hm_cmap :: string

definition sns_heatmap_call :: "matrix \<Rightarrow> heatmap_call" where
  "sns_heatmap_call df = \<lparr>hm_data = df, hm_vmin = Some 0, hm_vmax = None, hm_cmap = ''bone_r''\<rparr>"

text \<open>
  seaborn takes a limit of the colour scale that the caller leaves out from the data:
  \<^verbatim>\<open>np.nanmin\<close> and \<^verbatim>\<open>np.nanmax\<close> of the cells, which skip \<open>NaN\<close> and raise
  ValueError on a matrix without cells.
\<close>

fun fmax :: "fval \<Rightarrow> fval \<Rightarrow> fval" where
  "fmax NaN y = y"
| "fmax x NaN = x"
| "fmax PInf y = PInf"
| "fmax x PInf = PInf"
| "fmax NInf y = y"
| "fmax x NInf = x"
| "fmax (Fin a) (Fin b) = Fin (max a b)"

fun fmin :: "fval \<Rightarrow> fval \<Rightarrow> fval" where
  "fmin NaN y = y"
| "fmin x NaN = x"
| "fmin NInf y = NInf"
| "fmin x NInf = NInf"
| "fmin PInf y = y"
| "fmin x PInf = x"
| "fmin (Fin a) (Fin b) = Fin (min a b)"

definition nanmax :: "fval list \<Rightarrow> error + fval" where
  "nanmax vs =
     (case vs of
        [] \<Rightarrow> Inl (ValueError ''zero-size array to reduction operation fmax which has no identity'')
      | v # ws \<Rightarrow> Inr (foldl fmax v ws))"

definition nanmin :: "fval list \<Rightarrow> error + fval" where
  "nanmin vs =
     (case vs of
        [] \<Rightarrow> Inl (ValueError ''zero-size array to reduction operation fmin which has no identity'')
      | v # ws \<Rightarrow> Inr (foldl fmin v ws))"

definition color_limits :: "heatmap_call \<Rightarrow> error + (fval \<times> fval)" where
  "color_limits hm =
     (let cells = concat (mat_values (hm_data hm)) in
      case (case hm_vmin hm of Some v \<Rightarrow> Inr (Fin v) | None \<Rightarrow> nanmin cells) of
        Inl e \<Rightarrow> Inl e
      | Inr lo \<Rightarrow>
          (case (case hm_vmax hm of Some v \<Rightarrow> Inr (Fin v) | None \<Rightarrow> nanmax cells) of
             Inl e \<Rightarrow> Inl e
           | Inr hi \<Rightarrow> Inr (lo, hi)))"

text \<open>
  The figure that lines 198 to 208 ask for: the canvas size, the style, the heatmap call
  with the colour limits seaborn resolves for it, the tick label sizes, the rotation of
  the y tick labels, the axis titles and the figure title. What matplotlib does with a
  size it does not accept is not modelled.
\<close>

record figure =
  fig_figsize :: "rat \<times> rat"
  fig_style :: string
  fig_heatmap :: heatmap_call
  fig_clim :: "fval \<times> fval"
  fig_xtick_labelsize :: rat
  fig_ytick_labelsize :: rat
  fig_ytick_rotation :: int
  fig_xlabel :: string
  fig_ylabel :: string
  fig_title :: string

definition create_heatmap :: "matrix \<Rightarrow> rat \<times> rat \<times> rat \<times> rat \<Rightarrow> error + figure" where
  "create_heatmap df dims =
     (case dims of (fig_length, figure_height, sample_text_size, gene_id_text_size) \<Rightarrow>
        (case color_limits (sns_heatmap_call df) of
           Inl e \<Rightarrow> Inl e
         | Inr clim \<Rightarrow>
             Inr \<lparr>fig_figsize = (fig_length, figure_height),
                  fig_style = ''ticks'',
                  fig_heatmap = sns_heatmap_call df,
                  fig_clim = clim,
                  fig_xtick_labelsize = gene_id_text_size,
                  fig_ytick_labelsize = sample_text_size,
                  fig_ytick_rotation = 0,
                  fig_xlabel = ''Gene name'',
                  fig_ylabel = ''Sample name'',
                  fig_title = ''Percentage length recovery for each gene, relative to mean of targetfile references''\<rparr>))"

subsection \<open>\<open>main\<close>\<close>

text \<open>The attributes of \<^verbatim>\<open>args\<close> that \<open>main\<close> reads.\<close>

record args =
  output_folder :: "string option"
  seq_lengths_file :: string
  heatmap_filename :: string
  heatmap_filetype :: string
  heatmap_dpi :: int
  figure_length :: "int option"
  figure_height :: "int option"
  sample_text_size :: "int option"
  gene_text_size :: "int option"

text \<open>
  The files: a length table, given by the frame that \<^verbatim>\<open>read_csv\<close> parses from it, or
  an image written by \<^verbatim>\<open>plt.savefig(path, dpi=..., bbox_inches='tight')\<close>.
\<close>

datatype file_content = SeqLengths "rat dataframe" | Image figure int

type_synonym filesystem = "string \<rightharpoonup> file_content"

text \<open>\<^verbatim>\<open>os.path.join\<close> on two components (POSIX).\<close>

definition path_join :: "string \<Rightarrow> string \<Rightarrow> string" where
  "path_join a b =
     (if b \<noteq> [] \<and> hd b = CHR ''/'' then b
      else if a = [] \<or> last a = CHR ''/'' then a @ b
      else a @ ''/'' @ b)"

definition read_csv :: "filesystem \<Rightarrow> string \<Rightarrow> error + rat dataframe" where
  "read_csv fs path =
     (case fs path of
        None \<Rightarrow> Inl FileNotFoundError
      | Some (Image fig dpi) \<Rightarrow> Inl ParserError
      | Some (SeqLengths df) \<Rightarrow> Inr df)"

definition parent_dir :: "args \<Rightarrow> string" where
  "parent_dir a = (case output_folder a of None \<Rightarrow> ''.'' | Some d \<Rightarrow> if d = [] then ''.'' else d)"

definition path_to_seq_lengths_file :: "args \<Rightarrow> string" where
  "path_to_seq_lengths_file a = path_join (parent_dir a) (seq_lengths_file a)"

definition path_to_output_heatmap :: "args \<Rightarrow> string" where
  "path_to_output_heatmap a =
     path_join (parent_dir a) (heatmap_filename a @ ''.'' @ heatmap_filetype a)"

text \<open>
  \<open>main\<close> returns the exception that ended the run, if any, and the files after the run.
  The only write is \<^verbatim>\<open>plt.savefig\<close>, the last statement.
\<close>

definition main :: "args \<Rightarrow> filesystem \<Rightarrow> error option \<times> filesystem" where
  "main a fs =
     (if seq_lengths_file a \<noteq> [] \<and> fs (path_to_seq_lengths_file a) = None then
        (Some (SystemExit 1), fs)
      else
        case read_csv fs (path_to_seq_lengths_file a) of
          Inl e \<Rightarrow> (Some e, fs)
        | Inr df0 \<Rightarrow>
            (case recovery_matrix df0 of
               Inl e \<Rightarrow> (Some e, fs)
             | Inr df \<Rightarrow>
                 (case create_heatmap df
                         (get_figure_dimensions df (figure_length a) (figure_height a)
                            (sample_text_size a) (gene_text_size a)) of
                    Inl e \<Rightarrow> (Some e, fs)
                  | Inr fig \<Rightarrow>
                      (None, fs(path_to_output_heatmap a \<mapsto> Image fig (heatmap_dpi a))))))"

subsection \<open>Auxiliary notions and example inputs\<close>

text \<open>
  The numeric columns after lines 173 to 179 in one step: for every gene the capped
  ratios of the sample rows (the mean-length row is gone).
\<close>

definition ratio_columns :: "rat dataframe \<Rightarrow> (string \<times> fval list) list" where
  "ratio_columns df =
     map (\<lambda>(g, c). (g, map (\<lambda>s. cap_value (truediv s (hd c))) (tl c))) (gene_columns df)"

text \<open>
  Lengths are not negative: the mean length of every gene (row \<open>0\<close>) and every sample
  cell.
\<close>

definition nonneg_lengths :: "rat dataframe \<Rightarrow> bool" where
  "nonneg_lengths df \<longleftrightarrow>
     list_all (\<lambda>(g, c). 0 \<le> hd c \<and> list_all (\<lambda>x. 0 \<le> x) (tl c)) (gene_columns df)"

text \<open>The table of the scenario in the specification.\<close>

definition scenario_table :: "rat dataframe" where
  "scenario_table =
     \<lparr>id_name = ''Species'',
      id_values = [''MeanLength'', ''Sample1'', ''Sample2''],
      gene_columns = [(''geneA'', [100, 50, 150]), (''geneB'', [200, 200, 50])]\<rparr>"

text \<open>The same lengths with the genes and the samples listed in descending order.\<close>

definition unsorted_table :: "rat dataframe" where
  "unsorted_table =
     \<lparr>id_name = ''Species'',
      id_values = [''MeanLength'', ''Sample2'', ''Sample1''],
      gene_columns = [(''geneB'', [200, 50, 200]), (''geneA'', [100, 150, 50])]\<rparr>"

text \<open>A gene with mean length zero.\<close>

definition zero_reference_table :: "rat dataframe" where
  "zero_reference_table =
     \<lparr>id_name = ''Species'',
      id_values = [''MeanLength'', ''Sample1'', ''Sample2''],
      gene_columns = [(''geneA'', [0, 50, 0]), (''geneB'', [200, 100, 50])]\<rparr>"

text \<open>One sample that recovers half of the only gene.\<close>

definition half_table :: "rat dataframe" where
  "half_table =
     \<lparr>id_name = ''Species'',
      id_values = [''MeanLength'', ''Sample1''],
      gene_columns = [(''geneA'', [100, 50])]\<rparr>"

definition half_matrix :: matrix where
  "half_matrix =
     \<lparr>mat_index = [''Sample1''], mat_columns = [''geneA''], mat_values = [[Fin (1 / 2)]]\<rparr>"

text \<open>Two sample rows with the same name.\<close>

definition duplicate_table :: "rat dataframe" where
  "duplicate_table =
     \<lparr>id_name = ''Species'',
      id_values = [''MeanLength'', ''Sample1'', ''Sample1''],
      gene_columns = [(''geneA'', [100, 50, 150])]\<rparr>"

text \<open>A matrix of 30 samples and 60 genes (the cells do not matter for the sizes).\<close>

definition wide_matrix :: matrix where
  "wide_matrix =
     \<lparr>mat_index = map (\<lambda>n. replicate (Suc n) CHR ''s'') [0..<30],
      mat_columns = map (\<lambda>n. replicate (Suc n) CHR ''g'') [0..<60],
      mat_values = replicate 30 (replicate 60 (Fin 1))\<rparr>"

text \<open>A command line without overrides, and the files before the run.\<close>

definition default_args :: args where
  "default_args =
     \<lparr>output_folder = None, seq_lengths_file = ''seq_lengths.tsv'',
      heatmap_filename = ''recovery_heatmap'', heatmap_filetype = ''png'', heatmap_dpi = 150,
      figure_length = None, figure_height = None,
      sample_text_size = None, gene_text_size = None\<rparr>"

definition files_with :: "rat dataframe \<Rightarrow> filesystem" where
  "files_with df = [''./seq_lengths.tsv'' \<mapsto> SeqLengths df]"

section \<open>Properties\<close>

subsection \<open>Facts about the long frame\<close>

lemma melt_rows_Nil: "melt_rows ids [] = []"
  by (simp add: melt_rows_def)

lemma melt_rows_Cons:
  "melt_rows ids ((g, c) # cols) = map (\<lambda>(s, v). ((s, g), v)) (zip ids c) @ melt_rows ids cols"
  by (simp add: melt_rows_def)

lemma keys_block:
  assumes "length c = length ids"
  shows "map fst (map (\<lambda>(s, v). ((s, g), v)) (zip ids c)) = map (\<lambda>s. (s, g)) ids"
proof -
  have "map fst (map (\<lambda>(s, v). ((s, g), v)) (zip ids c)) = map (\<lambda>s. (s, g)) (map fst (zip ids c))"
    by (simp add: case_prod_unfold)
  also have "map fst (zip ids c) = ids"
    using assms by simp
  finally show ?thesis .
qed

lemma melt_rows_keys:
  "list_all (\<lambda>(g, c). length c = length ids) cols \<Longrightarrow>
   map fst (melt_rows ids cols) = concat (map (\<lambda>g. map (\<lambda>s. (s, g)) ids) (map fst cols))"
proof (induction cols)
  case Nil
  show ?case by (simp add: melt_rows_Nil)
next
  case (Cons p cols)
  obtain g c where p: "p = (g, c)" by (cases p)
  from Cons.prems p have len: "length c = length ids"
    and rest: "list_all (\<lambda>(g, c). length c = length ids) cols" by simp_all
  show ?case
    using Cons.IH [OF rest] keys_block [OF len] by (simp add: p melt_rows_Cons)
qed

lemma set_keys:
  "set (concat (map (\<lambda>g. map (\<lambda>s. (s, g)) ids) gs)) = set ids \<times> set gs"
  by (induction gs) auto

lemma distinct_keys:
  "distinct gs \<Longrightarrow>
   distinct (concat (map (\<lambda>g. map (\<lambda>s. (s, g)) ids) gs)) \<longleftrightarrow> gs = [] \<or> distinct ids"
proof (induction gs)
  case Nil
  show ?case by simp
next
  case (Cons g gs)
  have inj: "inj_on (\<lambda>s. (s, g)) (set ids)" by (simp add: inj_on_def)
  have blk: "distinct (map (\<lambda>s. (s, g)) ids) \<longleftrightarrow> distinct ids"
    by (simp add: distinct_map inj)
  have disj: "set (map (\<lambda>s. (s, g)) ids) \<inter> set (concat (map (\<lambda>g. map (\<lambda>s. (s, g)) ids) gs)) = {}"
    using Cons.prems by (auto simp: set_keys)
  from Cons.prems have "distinct gs" by simp
  from Cons.IH [OF this] blk disj show ?case by auto
qed

lemma sort_remdups_eq:
  fixes xs ys :: "'a::linorder list"
  assumes "distinct ys" "set xs = set ys"
  shows "sort (remdups xs) = sort ys"
proof (rule sorted_distinct_set_unique)
  show "sorted (sort (remdups xs))" by simp
  show "distinct (sort (remdups xs))" by simp
  show "sorted (sort ys)" by simp
  show "distinct (sort ys)" using assms(1) by simp
  show "set (sort (remdups xs)) = set (sort ys)" using assms(2) by simp
qed

lemma melt_rows_member:
  assumes "(g, c) \<in> set cols" "i < length ids" "i < length c"
  shows "((ids ! i, g), c ! i) \<in> set (melt_rows ids cols)"
proof -
  have "(ids ! i, c ! i) \<in> set (zip ids c)"
    using assms(2,3) by (auto simp: set_zip)
  then have "((ids ! i, g), c ! i) \<in> set (map (\<lambda>(s, v). ((s, g), v)) (zip ids c))"
    by force
  with assms(1) show ?thesis
    unfolding melt_rows_def by force
qed

lemma melt_rows_value:
  assumes "((s, g), v) \<in> set (melt_rows ids cols)"
  shows "\<exists>c. (g, c) \<in> set cols \<and> v \<in> set c"
  using assms unfolding melt_rows_def by (auto dest: set_zip_rightD)

subsection \<open>The pipeline on a well-formed table\<close>

lemma ratio_columns_names: "map fst (ratio_columns df) = map fst (gene_columns df)"
  by (simp add: ratio_columns_def case_prod_unfold)

lemma ratio_columns_lengths:
  assumes "list_all (\<lambda>(g, c). length c = length (id_values df)) (gene_columns df)"
  shows "list_all (\<lambda>(g, c). length c = length (tl (id_values df))) (ratio_columns df)"
  using assms by (simp add: ratio_columns_def list_all_iff case_prod_unfold)

lemma pipeline_long:
  assumes "gene_columns df \<noteq> []" "id_values df \<noteq> []" "id_name df = ''Species''"
  shows "recovery_matrix df = pivot (melt_rows (tl (id_values df)) (ratio_columns df))"
proof -
  have cols: "map ((\<lambda>(g, c). (g, tl c)) \<circ> ((\<lambda>(g, c). (g, map cap_value c)) \<circ>
                (\<lambda>(g, c). (g, map (\<lambda>s. truediv s (hd c)) c)))) (gene_columns df)
              = ratio_columns df"
    by (simp add: ratio_columns_def case_prod_unfold map_tl comp_def)
  show ?thesis
    using assms cols
    by (simp add: recovery_matrix_def div_by_mean_length_def cap_at_one_def drop_row_0_def
        melt_def)
qed


subsection \<open>Pivoting the long frame\<close>

lemma melt_rows_distinct:
  assumes "distinct (map fst cols)" "list_all (\<lambda>(g, c). length c = length ids) cols"
  shows "distinct (map fst (melt_rows ids cols)) \<longleftrightarrow> cols = [] \<or> distinct ids"
  using distinct_keys [OF assms(1), of ids] melt_rows_keys [OF assms(2)] by simp

lemma melt_rows_key_set:
  assumes "list_all (\<lambda>(g, c). length c = length ids) cols"
  shows "set (map fst (melt_rows ids cols)) = set ids \<times> set (map fst cols)"
  using melt_rows_keys [OF assms] set_keys [of ids "map fst cols"] by simp

lemma pivot_melt_rows:
  assumes names: "distinct (map fst cols)"
    and lens: "list_all (\<lambda>(g, c). length c = length ids) cols"
    and ids: "distinct ids" "ids \<noteq> []"
    and cols: "cols \<noteq> []"
  shows "pivot (melt_rows ids cols) =
     Inr \<lparr>mat_index = sort ids, mat_columns = sort (map fst cols),
          mat_values =
            map (\<lambda>s. map (\<lambda>g. case map_of (melt_rows ids cols) (s, g) of
                                  Some v \<Rightarrow> v | None \<Rightarrow> NaN) (sort (map fst cols))) (sort ids)\<rparr>"
proof -
  let ?long = "melt_rows ids cols"
  have d: "distinct (map fst ?long)"
    using melt_rows_distinct [OF names lens] ids(1) by simp
  have keys: "set (map fst ?long) = set ids \<times> set (map fst cols)"
    by (rule melt_rows_key_set [OF lens])
  have "set (map (fst \<circ> fst) ?long) = fst ` set (map fst ?long)"
    by (simp add: image_image)
  also have "\<dots> = set ids"
    using cols by (simp only: keys) auto
  finally have idx: "sort (remdups (map (fst \<circ> fst) ?long)) = sort ids"
    using ids(1) by (intro sort_remdups_eq)
  have "set (map (snd \<circ> fst) ?long) = snd ` set (map fst ?long)"
    by (simp add: image_image)
  also have "\<dots> = set (map fst cols)"
    using ids(2) by (simp only: keys) auto
  finally have cs: "sort (remdups (map (snd \<circ> fst) ?long)) = sort (map fst cols)"
    using names by (intro sort_remdups_eq)
  show ?thesis
    unfolding pivot_def using d by (simp only: idx cs Let_def) simp
qed

lemma pivot_duplicates:
  assumes "distinct (map fst cols)" "list_all (\<lambda>(g, c). length c = length ids) cols"
    and "cols \<noteq> []" "\<not> distinct ids"
  shows "pivot (melt_rows ids cols) =
     Inl (ValueError ''Index contains duplicate entries, cannot reshape'')"
  using melt_rows_distinct [OF assms(1,2)] assms(3,4) by (simp add: pivot_def)

lemma mat_loc_table:
  assumes "s \<in> set idx" "g \<in> set cs"
  shows "mat_loc \<lparr>mat_index = idx, mat_columns = cs,
                   mat_values = map (\<lambda>s. map (f s) cs) idx\<rparr> s g = Some (f s g)"
  using assms by (simp add: mat_loc_def map_of_zip_map)

lemma well_formed_matrix:
  assumes "well_formed df"
  shows "recovery_matrix df =
     Inr \<lparr>mat_index = sort (tl (id_values df)), mat_columns = sort (map fst (gene_columns df)),
          mat_values =
            map (\<lambda>s. map (\<lambda>g. case map_of (melt_rows (tl (id_values df)) (ratio_columns df)) (s, g) of
                                  Some v \<Rightarrow> v | None \<Rightarrow> NaN)
                       (sort (map fst (gene_columns df)))) (sort (tl (id_values df)))\<rparr>"
proof -
  from assms have wf: "wf_frame df" and nm: "id_name df = ''Species''"
    and cols: "gene_columns df \<noteq> []" and rows: "2 \<le> length (id_values df)"
    and ids: "distinct (tl (id_values df))"
    by (simp_all add: well_formed_def)
  from rows have ne: "id_values df \<noteq> []" and ne': "tl (id_values df) \<noteq> []"
    by (cases "id_values df"; auto)+
  from wf have names: "distinct (map fst (ratio_columns df))"
    by (simp add: wf_frame_def ratio_columns_names)
  from wf have lens: "list_all (\<lambda>(g, c). length c = length (tl (id_values df))) (ratio_columns df)"
    by (intro ratio_columns_lengths) (simp add: wf_frame_def)
  from cols have cols': "ratio_columns df \<noteq> []"
    by (simp add: ratio_columns_def)
  show ?thesis
    using pivot_melt_rows [OF names lens ids ne' cols']
    by (simp only: pipeline_long [OF cols ne nm] ratio_columns_names)
qed

lemma well_formed_cell:
  assumes wf: "well_formed df" and gc: "(g, c) \<in> set (gene_columns df)"
    and i: "0 < i" "i < length (id_values df)"
  shows "\<exists>m. recovery_matrix df = Inr m \<and>
             mat_loc m (id_values df ! i) g = Some (cap_value (truediv (c ! i) (c ! 0)))"
proof -
  let ?ids = "tl (id_values df)"
  let ?long = "melt_rows ?ids (ratio_columns df)"
  let ?rc = "map (\<lambda>s. cap_value (truediv s (hd c))) (tl c)"
  from i(1) obtain j where j: "i = Suc j" by (cases i) auto
  from wf have frame: "wf_frame df" and ids: "distinct ?ids"
    by (simp_all add: well_formed_def)
  from frame gc have len: "length c = length (id_values df)"
    by (auto simp: wf_frame_def list_all_iff)
  with i have c0: "hd c = c ! 0" by (cases c) auto
  from i j have jlen: "j < length ?ids" by simp
  from jlen len have jlen': "j < length (tl c)" by simp
  from jlen have s: "?ids ! j = id_values df ! i"
    by (simp add: nth_tl j)
  from jlen' have v: "?rc ! j = cap_value (truediv (c ! i) (c ! 0))"
    by (simp add: nth_tl c0 j)
  from gc have gc': "(g, ?rc) \<in> set (ratio_columns df)"
    by (force simp: ratio_columns_def)
  from jlen jlen' have "((?ids ! j, g), ?rc ! j) \<in> set ?long"
    by (intro melt_rows_member [OF gc']) auto
  then have mem: "((id_values df ! i, g), cap_value (truediv (c ! i) (c ! 0))) \<in> set ?long"
    by (simp only: s v)
  from frame have names: "distinct (map fst (ratio_columns df))"
    by (simp add: wf_frame_def ratio_columns_names)
  from frame have lens: "list_all (\<lambda>(g, c). length c = length ?ids) (ratio_columns df)"
    by (intro ratio_columns_lengths) (simp add: wf_frame_def)
  have "distinct (map fst ?long)"
    using melt_rows_distinct [OF names lens] ids by simp
  from map_of_is_SomeI [OF this mem]
  have look: "map_of ?long (id_values df ! i, g) = Some (cap_value (truediv (c ! i) (c ! 0)))" .
  from jlen have "?ids ! j \<in> set ?ids" by (rule nth_mem)
  then have sin: "id_values df ! i \<in> set (sort ?ids)" by (simp add: s)
  from gc have gin: "g \<in> set (sort (map fst (gene_columns df)))" by force
  show ?thesis
    using mat_loc_table [OF sin gin] look
    by (simp only: well_formed_matrix [OF wf]) simp
qed

lemma well_formed_cells:
  assumes wf: "well_formed df" and m: "recovery_matrix df = Inr m"
    and row: "row \<in> set (mat_values m)" and v: "v \<in> set row"
  shows "\<exists>g c s. (g, c) \<in> set (gene_columns df) \<and> s \<in> set (tl c) \<and>
                 v = cap_value (truediv s (hd c))"
proof -
  let ?ids = "tl (id_values df)"
  let ?gs = "map fst (gene_columns df)"
  let ?long = "melt_rows ?ids (ratio_columns df)"
  from wf have frame: "wf_frame df" by (simp add: well_formed_def)
  from frame have lens: "list_all (\<lambda>(g, c). length c = length ?ids) (ratio_columns df)"
    by (intro ratio_columns_lengths) (simp add: wf_frame_def)
  have keys: "set (map fst ?long) = set ?ids \<times> set ?gs"
    using melt_rows_key_set [OF lens] by (simp only: ratio_columns_names)
  from m well_formed_matrix [OF wf]
  have vals: "mat_values m =
      map (\<lambda>s. map (\<lambda>g. case map_of ?long (s, g) of Some v \<Rightarrow> v | None \<Rightarrow> NaN) (sort ?gs))
        (sort ?ids)"
    by auto
  from row vals obtain s where s: "s \<in> set ?ids"
    and r: "row = map (\<lambda>g. case map_of ?long (s, g) of Some v \<Rightarrow> v | None \<Rightarrow> NaN) (sort ?gs)"
    by auto
  from v r obtain g where g: "g \<in> set ?gs"
    and vg: "v = (case map_of ?long (s, g) of Some v \<Rightarrow> v | None \<Rightarrow> NaN)"
    by auto
  from s g keys have "(s, g) \<in> fst ` set ?long" by simp
  then obtain w where w: "map_of ?long (s, g) = Some w"
    by (cases "map_of ?long (s, g)") (simp_all add: map_of_eq_None_iff)
  with vg have vw: "v = w" by simp
  from w have "((s, g), w) \<in> set ?long" by (rule map_of_SomeD)
  from melt_rows_value [OF this] obtain rc where rc: "(g, rc) \<in> set (ratio_columns df)"
    and wrc: "w \<in> set rc" by blast
  from rc obtain c where c: "(g, c) \<in> set (gene_columns df)"
    and rcc: "rc = map (\<lambda>s. cap_value (truediv s (hd c))) (tl c)"
    by (auto simp: ratio_columns_def)
  from wrc rcc obtain x where "x \<in> set (tl c)" "w = cap_value (truediv x (hd c))" by auto
  with c vw show ?thesis by blast
qed

lemma cap_truediv_unit:
  assumes "0 \<le> r" "0 \<le> s"
  shows "\<exists>x. cap_value (truediv s r) = Fin x \<and> 0 \<le> x \<and> x \<le> 1"
proof (cases "r = 0")
  case True
  then show ?thesis using assms by (simp add: cap_value_def truediv_def)
next
  case False
  with assms have "0 \<le> s / r" by simp
  with False show ?thesis by (simp add: cap_value_def truediv_def)
qed

lemma cap_value_not_NaN: "cap_value v \<noteq> NaN"
  by (cases v) (simp_all add: cap_value_def)

lemma cap_truediv_below:
  assumes "0 < r" "s < r"
  shows "cap_value (truediv s r) = Fin (s / r)"
  using assms by (simp add: cap_value_def truediv_def)

lemma cap_truediv_above:
  assumes "0 < r" "r \<le> s"
  shows "cap_value (truediv s r) = Fin 1"
  using assms by (simp add: cap_value_def truediv_def)

lemma cap_truediv_zero:
  assumes "0 \<le> s"
  shows "cap_value (truediv s 0) = Fin 1"
  using assms by (simp add: cap_value_def truediv_def)

lemma get_figure_dimensions_eq:
  "get_figure_dimensions df fl fh st gt =
     (or_default fl (of_nat (length (mat_columns df)) / 3),
      or_default fh (of_nat (length (mat_index df)) / 3),
      or_default st 10, or_default gt 10)"
  by (simp add: get_figure_dimensions_def Let_def)

lemma foldl_fmax_capped:
  "\<forall>v \<in> set (v0 # vs). \<exists>x. v = Fin x \<and> x \<le> 1 \<Longrightarrow>
   \<exists>x. foldl fmax v0 vs = Fin x \<and> x \<le> 1 \<and> (x = 1 \<longleftrightarrow> Fin 1 \<in> set (v0 # vs))"
proof (induction vs arbitrary: v0)
  case Nil
  then show ?case by auto
next
  case (Cons w vs)
  from Cons.prems obtain a b where a: "v0 = Fin a" "a \<le> 1" and b: "w = Fin b" "b \<le> 1"
    by auto
  from Cons.prems a b have "\<forall>v \<in> set (Fin (max a b) # vs). \<exists>x. v = Fin x \<and> x \<le> 1"
    by auto
  from Cons.IH [OF this] obtain x where x: "foldl fmax (Fin (max a b)) vs = Fin x" "x \<le> 1"
    "x = 1 \<longleftrightarrow> Fin 1 \<in> set (Fin (max a b) # vs)"
    by blast
  from a b have "max a b = 1 \<longleftrightarrow> a = 1 \<or> b = 1" by (auto simp: max_def)
  with x a b show ?case by auto
qed

lemma pipeline_stages:
  assumes "gene_columns df \<noteq> []" "id_values df \<noteq> []" "id_name df = ''Species''"
  shows "\<exists>df1 df2. div_by_mean_length df = Inr df1 \<and> drop_row_0 (cap_at_one df1) = Inr df2 \<and>
           melt df2 = Inr (melt_rows (tl (id_values df)) (ratio_columns df))"
proof -
  have cols: "map ((\<lambda>(g, c). (g, tl c)) \<circ> ((\<lambda>(g, c). (g, map cap_value c)) \<circ>
                (\<lambda>(g, c). (g, map (\<lambda>s. truediv s (hd c)) c)))) (gene_columns df)
              = ratio_columns df"
    by (simp add: ratio_columns_def case_prod_unfold map_tl comp_def)
  show ?thesis
    using assms cols
    by (simp add: div_by_mean_length_def cap_at_one_def drop_row_0_def melt_def)
qed

subsection \<open>The claims\<close>

text \<open>
  C1. In a well-formed table, take a gene column \<open>c\<close> and a sample row \<open>i\<close> (any row but
  row \<open>0\<close>), with the mean length \<open>r = c ! 0\<close> positive and the sample length
  \<open>s = c ! i\<close>. The pipeline returns a matrix, and its cell for that sample and that gene
  is exactly \<open>s / r\<close> when \<open>0 \<le> s < r\<close>, and exactly \<open>1\<close> when \<open>s \<ge> r\<close>.
\<close>

theorem recovery_cell_ratio:
  assumes "well_formed df" and "(g, c) \<in> set (gene_columns df)"
    and "0 < i" and "i < length (id_values df)" and "0 < c ! 0"
  shows "\<exists>m. recovery_matrix df = Inr m \<and>
     (0 \<le> c ! i \<and> c ! i < c ! 0 \<longrightarrow>
        mat_loc m (id_values df ! i) g = Some (Fin (c ! i / c ! 0))) \<and>
     (c ! 0 \<le> c ! i \<longrightarrow> mat_loc m (id_values df ! i) g = Some (Fin 1))"
proof -
  from well_formed_cell [OF assms(1-4)] obtain m where m: "recovery_matrix df = Inr m"
    and cell: "mat_loc m (id_values df ! i) g = Some (cap_value (truediv (c ! i) (c ! 0)))"
    by blast
  have below: "c ! i < c ! 0 \<Longrightarrow> cap_value (truediv (c ! i) (c ! 0)) = Fin (c ! i / c ! 0)"
    using assms(5) by (rule cap_truediv_below)
  have above: "c ! 0 \<le> c ! i \<Longrightarrow> cap_value (truediv (c ! i) (c ! 0)) = Fin 1"
    using assms(5) by (rule cap_truediv_above)
  from m cell below above show ?thesis by auto
qed

theorem recovery_cell_ratio_witness:
  "well_formed scenario_table \<and>
   (''geneA'', [100, 50, 150]) \<in> set (gene_columns scenario_table) \<and>
   (\<exists>m. recovery_matrix scenario_table = Inr m \<and>
        mat_loc m ''Sample1'' ''geneA'' = Some (Fin (1 / 2))) \<and>
   (\<exists>m. recovery_matrix scenario_table = Inr m \<and>
        mat_loc m ''Sample2'' ''geneA'' = Some (Fin 1))"
proof -
  have wf: "well_formed scenario_table"
    by (simp add: well_formed_def wf_frame_def scenario_table_def)
  have gc: "(''geneA'', [100, 50, 150]) \<in> set (gene_columns scenario_table)"
    by (simp add: scenario_table_def)
  have l1: "1 < length (id_values scenario_table)" and l2: "2 < length (id_values scenario_table)"
    by (simp_all add: scenario_table_def)
  have r: "(0::rat) < [100, 50, 150] ! 0" by simp
  from recovery_cell_ratio [OF wf gc _ l1 r] recovery_cell_ratio [OF wf gc _ l2 r] wf gc
  show ?thesis by (simp add: scenario_table_def)
qed

text \<open>
  C8. Without overrides the text sizes are 10 and 10, the height is the number of sample
  rows divided by 3 and the length is the number of gene columns divided by 3; so 30
  samples give the height 10 and 60 genes give the length 20.
\<close>

theorem default_figure_dimensions:
  "get_figure_dimensions df None None None None =
     (of_nat (length (mat_columns df)) / 3, of_nat (length (mat_index df)) / 3, 10, 10) \<and>
   (length (mat_index df) = 30 \<longrightarrow>
      fst (snd (get_figure_dimensions df None None None None)) = 10) \<and>
   (length (mat_columns df) = 60 \<longrightarrow>
      fst (get_figure_dimensions df None None None None) = 20)"
  by (simp add: get_figure_dimensions_eq or_default_def)

theorem default_figure_dimensions_witness:
  "length (mat_index wide_matrix) = 30 \<and> length (mat_columns wide_matrix) = 60 \<and>
   get_figure_dimensions wide_matrix None None None None = (20, 10, 10, 10)"
proof -
  have l: "length (mat_index wide_matrix) = 30" "length (mat_columns wide_matrix) = 60"
    by (simp_all add: wide_matrix_def)
  from default_figure_dimensions [of wide_matrix] l show ?thesis by simp
qed

text \<open>
  C7. The result depends on the arguments only (equal arguments, equal results), and an
  override that is given, that is an integer other than \<open>0\<close>, comes back unchanged in its
  position whatever the matrix is.
\<close>

theorem overrides_returned_unchanged:
  "(a \<noteq> 0 \<longrightarrow> fst (get_figure_dimensions df (Some a) fh st gt) = of_int a) \<and>
   (b \<noteq> 0 \<longrightarrow> fst (snd (get_figure_dimensions df fl (Some b) st gt)) = of_int b) \<and>
   (c \<noteq> 0 \<longrightarrow> fst (snd (snd (get_figure_dimensions df fl fh (Some c) gt))) = of_int c) \<and>
   (d \<noteq> 0 \<longrightarrow> snd (snd (snd (get_figure_dimensions df fl fh st (Some d)))) = of_int d) \<and>
   (a \<noteq> 0 \<and> b \<noteq> 0 \<and> c \<noteq> 0 \<and> d \<noteq> 0 \<longrightarrow>
      get_figure_dimensions df (Some a) (Some b) (Some c) (Some d) =
        (of_int a, of_int b, of_int c, of_int d)) \<and>
   (df = df' \<and> fl = fl' \<and> fh = fh' \<and> st = st' \<and> gt = gt' \<longrightarrow>
      get_figure_dimensions df fl fh st gt = get_figure_dimensions df' fl' fh' st' gt')"
  by (simp add: get_figure_dimensions_eq or_default_def)

theorem overrides_returned_unchanged_witness:
  "get_figure_dimensions wide_matrix (Some 12) (Some 8) (Some 14) (Some 6) = (12, 8, 14, 6) \<and>
   get_figure_dimensions half_matrix (Some 12) (Some 8) (Some 14) (Some 6) = (12, 8, 14, 6) \<and>
   fst (snd (snd (get_figure_dimensions wide_matrix None None (Some 14) None))) = 14"
  using overrides_returned_unchanged [where a = 12 and b = 8 and c = 14 and d = 6
      and df = wide_matrix and fl = None and fh = None and gt = None]
    overrides_returned_unchanged [where a = 12 and b = 8 and c = 14 and d = 6
      and df = half_matrix]
  by simp

text \<open>
  C6, as stated, asks for a failure on a zero or negative override. The function has no
  check: with every override \<open>0\<close> it returns the defaults, a run of \<open>main\<close> with
  \<^verbatim>\<open>--figure_length 0\<close> ends without an exception, and a negative length is returned.
\<close>

theorem zero_override_counterexample:
  "get_figure_dimensions half_matrix (Some 0) (Some 0) (Some 0) (Some 0) = (1 / 3, 1 / 3, 10, 10) \<and>
   fst (main (default_args\<lparr>figure_length := Some 0\<rparr>) (files_with scenario_table)) = None \<and>
   get_figure_dimensions half_matrix (Some (- 4)) None None None = (- 4, 1 / 3, 10, 10)"
  by code_simp

text \<open>
  C6, amended. \<open>get_figure_dimensions\<close> validates nothing and always returns: an override
  \<open>0\<close> is treated like an absent one (the default is used), and negative overrides are
  returned unchanged.
\<close>

theorem no_dimension_validation:
  "get_figure_dimensions df (Some 0) fh st gt = get_figure_dimensions df None fh st gt \<and>
   get_figure_dimensions df fl (Some 0) st gt = get_figure_dimensions df fl None st gt \<and>
   get_figure_dimensions df fl fh (Some 0) gt = get_figure_dimensions df fl fh None gt \<and>
   get_figure_dimensions df fl fh st (Some 0) = get_figure_dimensions df fl fh st None \<and>
   (a < 0 \<and> b < 0 \<and> c < 0 \<and> d < 0 \<longrightarrow>
      get_figure_dimensions df (Some a) (Some b) (Some c) (Some d) =
        (of_int a, of_int b, of_int c, of_int d))"
  by (simp add: get_figure_dimensions_eq or_default_def)

theorem no_dimension_validation_witness:
  "get_figure_dimensions half_matrix (Some (- 1)) (Some (- 2)) (Some (- 3)) (Some (- 4)) =
     (- 1, - 2, - 3, - 4)"
  using no_dimension_validation [where df = half_matrix and a = "- 1" and b = "- 2"
      and c = "- 3" and d = "- 4"]
  by simp

text \<open>
  C2. In a well-formed table whose lengths are not negative (the sample cells, and the
  mean lengths of row \<open>0\<close>), the pipeline returns a matrix and every cell of it is a
  finite number between \<open>0\<close> and \<open>1\<close>, both included.
\<close>

theorem recovery_matrix_unit_interval:
  assumes "well_formed df" and "nonneg_lengths df"
  shows "\<exists>m. recovery_matrix df = Inr m \<and>
     (\<forall>row \<in> set (mat_values m). \<forall>v \<in> set row. \<exists>x. v = Fin x \<and> 0 \<le> x \<and> x \<le> 1)"
proof -
  from well_formed_matrix [OF assms(1)] obtain m where m: "recovery_matrix df = Inr m"
    by blast
  have "\<exists>x. v = Fin x \<and> 0 \<le> x \<and> x \<le> 1" if "row \<in> set (mat_values m)" "v \<in> set row"
    for row v
  proof -
    from well_formed_cells [OF assms(1) m that] obtain g c s
      where gc: "(g, c) \<in> set (gene_columns df)" and s: "s \<in> set (tl c)"
        and v: "v = cap_value (truediv s (hd c))"
      by blast
    from assms(2) gc s have "0 \<le> hd c" "0 \<le> s"
      by (auto simp: nonneg_lengths_def list_all_iff)
    from cap_truediv_unit [OF this] v show ?thesis by simp
  qed
  with m show ?thesis by blast
qed

theorem recovery_matrix_unit_interval_witness:
  "well_formed zero_reference_table \<and> nonneg_lengths zero_reference_table \<and>
   recovery_matrix zero_reference_table =
     Inr \<lparr>mat_index = [''Sample1'', ''Sample2''], mat_columns = [''geneA'', ''geneB''],
          mat_values = [[Fin 1, Fin (1 / 2)], [Fin 1, Fin (1 / 4)]]\<rparr> \<and>
   (\<exists>m. recovery_matrix zero_reference_table = Inr m \<and>
     (\<forall>row \<in> set (mat_values m). \<forall>v \<in> set row. \<exists>x. v = Fin x \<and> 0 \<le> x \<and> x \<le> 1))"
proof -
  have wf: "well_formed zero_reference_table"
    by (simp add: well_formed_def wf_frame_def zero_reference_table_def)
  have nn: "nonneg_lengths zero_reference_table"
    by (simp add: nonneg_lengths_def zero_reference_table_def)
  have ev: "recovery_matrix zero_reference_table =
     Inr \<lparr>mat_index = [''Sample1'', ''Sample2''], mat_columns = [''geneA'', ''geneB''],
          mat_values = [[Fin 1, Fin (1 / 2)], [Fin 1, Fin (1 / 4)]]\<rparr>"
    by code_simp
  from recovery_matrix_unit_interval [OF wf nn] wf nn ev show ?thesis by blast
qed

text \<open>
  C3, as stated, has the samples and the genes of the matrix in the order of the input.
  \<^verbatim>\<open>pivot\<close> sorts both axes: for the table with the genes \<open>geneB, geneA\<close> and the samples
  \<open>Sample2, Sample1\<close> the matrix lists \<open>geneA, geneB\<close> and \<open>Sample1, Sample2\<close>.
\<close>

theorem input_order_counterexample:
  "well_formed unsorted_table \<and>
   recovery_matrix unsorted_table =
     Inr \<lparr>mat_index = [''Sample1'', ''Sample2''], mat_columns = [''geneA'', ''geneB''],
          mat_values = [[Fin (1 / 2), Fin 1], [Fin 1, Fin (1 / 4)]]\<rparr> \<and>
   tl (id_values unsorted_table) = [''Sample2'', ''Sample1''] \<and>
   map fst (gene_columns unsorted_table) = [''geneB'', ''geneA''] \<and>
   [''Sample1'', ''Sample2''] \<noteq> tl (id_values unsorted_table) \<and>
   [''geneA'', ''geneB''] \<noteq> map fst (gene_columns unsorted_table)"
proof -
  have wf: "well_formed unsorted_table"
    by (simp add: well_formed_def wf_frame_def unsorted_table_def)
  have ev: "recovery_matrix unsorted_table =
     Inr \<lparr>mat_index = [''Sample1'', ''Sample2''], mat_columns = [''geneA'', ''geneB''],
          mat_values = [[Fin (1 / 2), Fin 1], [Fin 1, Fin (1 / 4)]]\<rparr>"
    by code_simp
  from wf ev show ?thesis by (simp add: unsorted_table_def)
qed

text \<open>
  C3, amended. For a well-formed table with \<open>R\<close> data rows and \<open>C\<close> columns (one of them
  the name column) the matrix has \<open>R - 1\<close> rows and \<open>C - 1\<close> columns, and both axes carry
  the labels of the input in ascending order; an axis keeps the input order exactly when
  the input lists its labels in ascending order.
\<close>

theorem recovery_matrix_shape:
  assumes "well_formed df"
  shows "\<exists>m. recovery_matrix df = Inr m \<and>
     length (mat_index m) = length (id_values df) - 1 \<and>
     length (mat_values m) = length (id_values df) - 1 \<and>
     length (mat_columns m) = length (gene_columns df) \<and>
     (\<forall>row \<in> set (mat_values m). length row = length (gene_columns df)) \<and>
     mat_index m = sort (tl (id_values df)) \<and>
     mat_columns m = sort (map fst (gene_columns df)) \<and>
     (mat_index m = tl (id_values df) \<longleftrightarrow> sorted (tl (id_values df))) \<and>
     (mat_columns m = map fst (gene_columns df) \<longleftrightarrow> sorted (map fst (gene_columns df)))"
proof -
  have srt: "sort xs = xs \<longleftrightarrow> sorted xs" for xs :: "string list"
    by (metis sorted_sort sorted_sort_id)
  show ?thesis
    by (simp add: well_formed_matrix [OF assms] srt)
qed

theorem recovery_matrix_shape_witness:
  "well_formed unsorted_table \<and>
   (\<exists>m. recovery_matrix unsorted_table = Inr m \<and>
     length (mat_index m) = 2 \<and> length (mat_values m) = 2 \<and> length (mat_columns m) = 2 \<and>
     (\<forall>row \<in> set (mat_values m). length row = 2) \<and>
     mat_index m = [''Sample1'', ''Sample2''] \<and> mat_columns m = [''geneA'', ''geneB''])"
proof -
  have wf: "well_formed unsorted_table"
    by (simp add: well_formed_def wf_frame_def unsorted_table_def)
  have s1: "sort (tl (id_values unsorted_table)) = [''Sample1'', ''Sample2'']"
    and s2: "sort (map fst (gene_columns unsorted_table)) = [''geneA'', ''geneB'']"
    by (simp_all add: unsorted_table_def)
  have l: "length (id_values unsorted_table) - 1 = 2" "length (gene_columns unsorted_table) = 2"
    by (simp_all add: unsorted_table_def)
  from recovery_matrix_shape [OF wf] obtain m where "recovery_matrix unsorted_table = Inr m"
    "length (mat_index m) = 2" "length (mat_values m) = 2" "length (mat_columns m) = 2"
    "\<forall>row \<in> set (mat_values m). length row = 2"
    "mat_index m = [''Sample1'', ''Sample2'']" "mat_columns m = [''geneA'', ''geneB'']"
    unfolding s1 s2 l by blast
  with wf show ?thesis by blast
qed

text \<open>
  C4, as stated, has a \<open>NaN\<close> cell in the matrix for a gene whose mean length is zero.
  The comparison \<^verbatim>\<open>< 1\<close> is false for \<open>NaN\<close> and for \<open>inf\<close>, so line 176 replaces both
  by \<open>1\<close>: with the mean length \<open>0\<close> for \<open>geneA\<close>, the samples with the lengths \<open>50\<close>
  and \<open>0\<close> both get the cell \<open>1\<close>.
\<close>

theorem zero_reference_counterexample:
  "well_formed zero_reference_table \<and>
   recovery_matrix zero_reference_table =
     Inr \<lparr>mat_index = [''Sample1'', ''Sample2''], mat_columns = [''geneA'', ''geneB''],
          mat_values = [[Fin 1, Fin (1 / 2)], [Fin 1, Fin (1 / 4)]]\<rparr> \<and>
   mat_loc \<lparr>mat_index = [''Sample1'', ''Sample2''], mat_columns = [''geneA'', ''geneB''],
            mat_values = [[Fin 1, Fin (1 / 2)], [Fin 1, Fin (1 / 4)]]\<rparr> ''Sample1'' ''geneA''
     \<noteq> Some NaN \<and>
   mat_loc \<lparr>mat_index = [''Sample1'', ''Sample2''], mat_columns = [''geneA'', ''geneB''],
            mat_values = [[Fin 1, Fin (1 / 2)], [Fin 1, Fin (1 / 4)]]\<rparr> ''Sample2'' ''geneA''
     \<noteq> Some NaN"
proof -
  have wf: "well_formed zero_reference_table"
    by (simp add: well_formed_def wf_frame_def zero_reference_table_def)
  have ev: "recovery_matrix zero_reference_table =
     Inr \<lparr>mat_index = [''Sample1'', ''Sample2''], mat_columns = [''geneA'', ''geneB''],
          mat_values = [[Fin 1, Fin (1 / 2)], [Fin 1, Fin (1 / 4)]]\<rparr>"
    by code_simp
  from wf ev show ?thesis by (simp add: mat_loc_def)
qed

text \<open>
  C4, amended. In a well-formed table, for a gene whose mean length is zero, the run does
  not fail and the cell of every sample with a non-negative length at that gene is
  exactly \<open>1\<close>; no cell of the matrix is \<open>NaN\<close>.
\<close>

theorem zero_reference_capped:
  assumes "well_formed df" and "(g, c) \<in> set (gene_columns df)"
    and "0 < i" and "i < length (id_values df)" and "c ! 0 = 0" and "0 \<le> c ! i"
  shows "\<exists>m. recovery_matrix df = Inr m \<and>
     mat_loc m (id_values df ! i) g = Some (Fin 1) \<and>
     (\<forall>row \<in> set (mat_values m). NaN \<notin> set row)"
proof -
  from well_formed_cell [OF assms(1-4)] obtain m where m: "recovery_matrix df = Inr m"
    and cell: "mat_loc m (id_values df ! i) g = Some (cap_value (truediv (c ! i) (c ! 0)))"
    by blast
  from cell assms(5) cap_truediv_zero [OF assms(6)]
  have one: "mat_loc m (id_values df ! i) g = Some (Fin 1)" by simp
  have "v \<noteq> NaN" if "row \<in> set (mat_values m)" "v \<in> set row" for row v
    using well_formed_cells [OF assms(1) m that] cap_value_not_NaN by auto
  with m one show ?thesis by blast
qed

theorem zero_reference_capped_witness:
  "well_formed zero_reference_table \<and>
   (\<exists>m. recovery_matrix zero_reference_table = Inr m \<and>
        mat_loc m ''Sample1'' ''geneA'' = Some (Fin 1) \<and>
        (\<forall>row \<in> set (mat_values m). NaN \<notin> set row)) \<and>
   (\<exists>m. recovery_matrix zero_reference_table = Inr m \<and>
        mat_loc m ''Sample2'' ''geneA'' = Some (Fin 1) \<and>
        (\<forall>row \<in> set (mat_values m). NaN \<notin> set row))"
proof -
  have wf: "well_formed zero_reference_table"
    by (simp add: well_formed_def wf_frame_def zero_reference_table_def)
  have gc: "(''geneA'', [0, 50, 0]) \<in> set (gene_columns zero_reference_table)"
    by (simp add: zero_reference_table_def)
  have l1: "1 < length (id_values zero_reference_table)"
    and l2: "2 < length (id_values zero_reference_table)"
    by (simp_all add: zero_reference_table_def)
  have r: "[0, 50, 0 :: rat] ! 0 = 0" by simp
  have s1: "(0::rat) \<le> [0, 50, 0] ! 1" and s2: "(0::rat) \<le> [0, 50, 0] ! 2" by simp_all
  from zero_reference_capped [OF wf gc _ l1 r s1] zero_reference_capped [OF wf gc _ l2 r s2] wf
  show ?thesis by (simp add: zero_reference_table_def)
qed

text \<open>
  C5, as stated, has the colour scale fixed to \<open>[0, 1]\<close> whatever the matrix holds. The
  call passes \<^verbatim>\<open>vmin=0\<close> and no \<^verbatim>\<open>vmax\<close>: for the matrix with the single cell \<open>1/2\<close> the
  scale that seaborn resolves ends at \<open>1/2\<close>.
\<close>

theorem colour_scale_counterexample:
  "recovery_matrix half_table = Inr half_matrix \<and>
   hm_vmax (sns_heatmap_call half_matrix) = None \<and>
   color_limits (sns_heatmap_call half_matrix) = Inr (Fin 0, Fin (1 / 2)) \<and>
   color_limits (sns_heatmap_call half_matrix) \<noteq> Inr (Fin 0, Fin 1)"
  by code_simp

text \<open>
  C5, amended. Whenever the heatmap is drawn, the call has the lower end of the scale
  fixed to \<open>0\<close>, the colour map \<open>bone_r\<close> (light for low values, dark for high ones) and
  no upper end; the upper end in effect is the largest cell of the matrix. For a matrix
  of finite cells not above \<open>1\<close> the scale is \<open>[0, 1]\<close> exactly when some cell is \<open>1\<close>.
\<close>

theorem heatmap_colour_scale:
  assumes "create_heatmap df dims = Inr fig"
  shows "hm_vmin (fig_heatmap fig) = Some 0 \<and> hm_vmax (fig_heatmap fig) = None \<and>
     hm_cmap (fig_heatmap fig) = ''bone_r'' \<and>
     fst (fig_clim fig) = Fin 0 \<and>
     nanmax (concat (mat_values df)) = Inr (snd (fig_clim fig)) \<and>
     ((\<forall>v \<in> set (concat (mat_values df)). \<exists>x. v = Fin x \<and> x \<le> 1) \<longrightarrow>
        (fig_clim fig = (Fin 0, Fin 1) \<longleftrightarrow> Fin 1 \<in> set (concat (mat_values df))))"
proof -
  obtain fl fh st gt where dims: "dims = (fl, fh, st, gt)" by (cases dims)
  from assms dims obtain clim where clim: "color_limits (sns_heatmap_call df) = Inr clim"
    and fig: "fig_heatmap fig = sns_heatmap_call df" "fig_clim fig = clim"
    by (auto simp: create_heatmap_def split: sum.splits)
  from clim obtain hi where hi: "nanmax (concat (mat_values df)) = Inr hi"
    and c: "clim = (Fin 0, hi)"
    by (auto simp: color_limits_def sns_heatmap_call_def Let_def split: sum.splits)
  have "hi = Fin 1 \<longleftrightarrow> Fin 1 \<in> set (concat (mat_values df))"
    if capped: "\<forall>v \<in> set (concat (mat_values df)). \<exists>x. v = Fin x \<and> x \<le> 1"
  proof -
    from hi obtain v0 vs where cells: "concat (mat_values df) = v0 # vs"
      and f: "hi = foldl fmax v0 vs"
      by (auto simp: nanmax_def split: list.splits)
    from capped cells have "\<forall>v \<in> set (v0 # vs). \<exists>x. v = Fin x \<and> x \<le> 1" by simp
    from foldl_fmax_capped [OF this] f cells show ?thesis by auto
  qed
  with hi c fig show ?thesis
    by (simp add: sns_heatmap_call_def)
qed

theorem heatmap_colour_scale_witness:
  "\<exists>fig. create_heatmap half_matrix (1 / 3, 1 / 3, 10, 10) = Inr fig \<and>
     hm_vmin (fig_heatmap fig) = Some 0 \<and> hm_vmax (fig_heatmap fig) = None \<and>
     hm_cmap (fig_heatmap fig) = ''bone_r'' \<and> fig_clim fig = (Fin 0, Fin (1 / 2)) \<and>
     (\<forall>v \<in> set (concat (mat_values half_matrix)). \<exists>x. v = Fin x \<and> x \<le> 1) \<and>
     Fin 1 \<notin> set (concat (mat_values half_matrix))"
proof -
  obtain fig where fig: "create_heatmap half_matrix (1 / 3, 1 / 3, 10, 10) = Inr fig"
    by (simp add: create_heatmap_def color_limits_def sns_heatmap_call_def nanmax_def
        half_matrix_def)
  have n: "nanmax (concat (mat_values half_matrix)) = Inr (Fin (1 / 2))"
    by (simp add: nanmax_def half_matrix_def)
  have "\<exists>x. Fin (1 / 2) = Fin x \<and> x \<le> 1"
    by (rule exI [of _ "1 / 2"]) simp
  then have cells: "\<forall>v \<in> set (concat (mat_values half_matrix)). \<exists>x. v = Fin x \<and> x \<le> 1"
    "Fin 1 \<notin> set (concat (mat_values half_matrix))"
    unfolding half_matrix_def by simp_all
  from heatmap_colour_scale [OF fig] n have "hm_vmin (fig_heatmap fig) = Some 0"
    "hm_vmax (fig_heatmap fig) = None" "hm_cmap (fig_heatmap fig) = ''bone_r''"
    "fig_clim fig = (Fin 0, Fin (1 / 2))"
    by (simp_all add: prod_eq_iff)
  with fig cells show ?thesis by blast
qed

text \<open>
  C9, as stated, has the same matrix whatever the first column is called. \<^verbatim>\<open>melt\<close> asks
  for the column \<open>Species\<close> by name: the scenario table gives its matrix, and the same
  table with the first column headed \<open>Sample\<close> raises KeyError.
\<close>

theorem identifier_name_counterexample:
  "recovery_matrix scenario_table =
     Inr \<lparr>mat_index = [''Sample1'', ''Sample2''], mat_columns = [''geneA'', ''geneB''],
          mat_values = [[Fin (1 / 2), Fin 1], [Fin 1, Fin (1 / 4)]]\<rparr> \<and>
   recovery_matrix (scenario_table\<lparr>id_name := ''Sample''\<rparr>) =
     Inl (KeyError ''The following id_vars are not present in the DataFrame: Species'')"
  by code_simp

text \<open>
  C9, amended. The identifier column is the column named \<open>Species\<close>. For a well-formed
  table (its first column has that name) normalisation and reshaping succeed, the rows of
  the matrix are the sample names, its columns are the gene names, and the first column
  is not among them. A table with a gene column and a row but no column named
  \<open>Species\<close> is rejected with KeyError.
\<close>

theorem species_column_is_identifier:
  "(well_formed df \<longrightarrow>
      (\<exists>m. recovery_matrix df = Inr m \<and>
           set (mat_index m) = set (tl (id_values df)) \<and>
           set (mat_columns m) = set (map fst (gene_columns df)) \<and>
           id_name df \<notin> set (mat_columns m))) \<and>
   (gene_columns df \<noteq> [] \<and> id_values df \<noteq> [] \<and>
    ''Species'' \<notin> set (id_name df # map fst (gene_columns df)) \<longrightarrow>
      recovery_matrix df =
        Inl (KeyError ''The following id_vars are not present in the DataFrame: Species''))"
proof (intro conjI impI)
  assume wf: "well_formed df"
  then have "wf_frame df"
    by (simp only: well_formed_def)
  then have "distinct (id_name df # map fst (gene_columns df))"
    by (simp only: wf_frame_def)
  then have "id_name df \<notin> set (map fst (gene_columns df))"
    by simp
  then show "\<exists>m. recovery_matrix df = Inr m \<and>
           set (mat_index m) = set (tl (id_values df)) \<and>
           set (mat_columns m) = set (map fst (gene_columns df)) \<and>
           id_name df \<notin> set (mat_columns m)"
    by (simp add: well_formed_matrix [OF wf])
next
  assume a: "gene_columns df \<noteq> [] \<and> id_values df \<noteq> [] \<and>
    ''Species'' \<notin> set (id_name df # map fst (gene_columns df))"
  then have "''Species'' \<notin> fst ` set (gene_columns df)" "id_name df \<noteq> ''Species''"
    by auto
  with a show "recovery_matrix df =
        Inl (KeyError ''The following id_vars are not present in the DataFrame: Species'')"
    by (simp add: recovery_matrix_def div_by_mean_length_def cap_at_one_def drop_row_0_def
        melt_def image_image case_prod_unfold)
qed

theorem species_column_is_identifier_witness:
  "well_formed scenario_table \<and>
   (\<exists>m. recovery_matrix scenario_table = Inr m \<and>
        set (mat_index m) = {''Sample1'', ''Sample2''} \<and>
        set (mat_columns m) = {''geneA'', ''geneB''} \<and> ''Species'' \<notin> set (mat_columns m)) \<and>
   ''Species'' \<notin> set (id_name (scenario_table\<lparr>id_name := ''Sample''\<rparr>) #
                        map fst (gene_columns (scenario_table\<lparr>id_name := ''Sample''\<rparr>))) \<and>
   recovery_matrix (scenario_table\<lparr>id_name := ''Sample''\<rparr>) =
     Inl (KeyError ''The following id_vars are not present in the DataFrame: Species'')"
proof -
  have wf: "well_formed scenario_table"
    by (simp add: well_formed_def wf_frame_def scenario_table_def)
  have ns: "gene_columns (scenario_table\<lparr>id_name := ''Sample''\<rparr>) \<noteq> [] \<and>
    id_values (scenario_table\<lparr>id_name := ''Sample''\<rparr>) \<noteq> [] \<and>
    ''Species'' \<notin> set (id_name (scenario_table\<lparr>id_name := ''Sample''\<rparr>) #
                        map fst (gene_columns (scenario_table\<lparr>id_name := ''Sample''\<rparr>)))"
    by (simp add: scenario_table_def)
  from species_column_is_identifier [of scenario_table] wf
  have 1: "\<exists>m. recovery_matrix scenario_table = Inr m \<and>
        set (mat_index m) = {''Sample1'', ''Sample2''} \<and>
        set (mat_columns m) = {''geneA'', ''geneB''} \<and> ''Species'' \<notin> set (mat_columns m)"
    by (simp add: scenario_table_def)
  from species_column_is_identifier [of "scenario_table\<lparr>id_name := ''Sample''\<rparr>"] ns
  have 2: "recovery_matrix (scenario_table\<lparr>id_name := ''Sample''\<rparr>) =
     Inl (KeyError ''The following id_vars are not present in the DataFrame: Species'')"
    by blast
  from wf 1 2 ns show ?thesis by blast
qed

text \<open>
  C10. Take a rectangular table headed \<open>Species\<close> with a gene column, in which two sample
  rows (rows other than row \<open>0\<close>) carry the same name, stored as the length file of the
  run. Division, capping, dropping row \<open>0\<close> and melting succeed, \<^verbatim>\<open>pivot\<close> raises
  ValueError for the duplicate entries, and \<open>main\<close> ends with that exception and leaves
  the files as they were: no image is written.
\<close>

theorem duplicate_samples_fail:
  assumes "wf_frame df" and "id_name df = ''Species''" and "gene_columns df \<noteq> []"
    and "\<not> distinct (tl (id_values df))"
    and "fs (path_to_seq_lengths_file a) = Some (SeqLengths df)"
  shows "(\<exists>df1 df2 long.
            div_by_mean_length df = Inr df1 \<and> drop_row_0 (cap_at_one df1) = Inr df2 \<and>
            melt df2 = Inr long \<and>
            pivot long = Inl (ValueError ''Index contains duplicate entries, cannot reshape'')) \<and>
         main a fs = (Some (ValueError ''Index contains duplicate entries, cannot reshape''), fs)"
proof -
  let ?long = "melt_rows (tl (id_values df)) (ratio_columns df)"
  from assms(4) have ne: "id_values df \<noteq> []" by auto
  from assms(1) have names: "distinct (map fst (ratio_columns df))"
    by (simp add: wf_frame_def ratio_columns_names)
  from assms(1)
  have lens: "list_all (\<lambda>(g, c). length c = length (tl (id_values df))) (ratio_columns df)"
    by (intro ratio_columns_lengths) (simp add: wf_frame_def)
  from assms(3) have cols: "ratio_columns df \<noteq> []" by (simp add: ratio_columns_def)
  have piv: "pivot ?long = Inl (ValueError ''Index contains duplicate entries, cannot reshape'')"
    by (rule pivot_duplicates [OF names lens cols assms(4)])
  from pipeline_stages [OF assms(3) ne assms(2)] piv have stages: "\<exists>df1 df2 long.
            div_by_mean_length df = Inr df1 \<and> drop_row_0 (cap_at_one df1) = Inr df2 \<and>
            melt df2 = Inr long \<and>
            pivot long = Inl (ValueError ''Index contains duplicate entries, cannot reshape'')"
    by blast
  have "recovery_matrix df = Inl (ValueError ''Index contains duplicate entries, cannot reshape'')"
    using piv by (simp only: pipeline_long [OF assms(3) ne assms(2)])
  with assms(5)
  have "main a fs = (Some (ValueError ''Index contains duplicate entries, cannot reshape''), fs)"
    by (simp add: main_def read_csv_def)
  with stages show ?thesis by blast
qed

theorem duplicate_samples_fail_witness:
  "wf_frame duplicate_table \<and> \<not> distinct (tl (id_values duplicate_table)) \<and>
   files_with duplicate_table (path_to_seq_lengths_file default_args) =
     Some (SeqLengths duplicate_table) \<and>
   main default_args (files_with duplicate_table) =
     (Some (ValueError ''Index contains duplicate entries, cannot reshape''),
      files_with duplicate_table) \<and>
   snd (main default_args (files_with duplicate_table)) (path_to_output_heatmap default_args) = None"
proof -
  have wf: "wf_frame duplicate_table" and nm: "id_name duplicate_table = ''Species''"
    and cols: "gene_columns duplicate_table \<noteq> []"
    and dup: "\<not> distinct (tl (id_values duplicate_table))"
    by (simp_all add: wf_frame_def duplicate_table_def)
  have inp: "files_with duplicate_table (path_to_seq_lengths_file default_args) =
     Some (SeqLengths duplicate_table)"
    by (simp add: files_with_def path_to_seq_lengths_file_def path_join_def parent_dir_def
        default_args_def)
  have out: "files_with duplicate_table (path_to_output_heatmap default_args) = None"
    by (simp add: files_with_def path_to_output_heatmap_def path_join_def parent_dir_def
        default_args_def)
  from duplicate_samples_fail [where fs = "files_with duplicate_table" and a = default_args,
      OF wf nm cols dup inp] wf dup inp out
  show ?thesis by simp
qed

end
